theory Spec2Isabelle
  imports Complex_Main "HOL-Library.Char_ord" "HOL-Library.List_Lexorder" "HOL-Library.Sublist"
    "HOL-Library.Multiset"
begin

section \<open>The sales dashboard of \<open>streamlit_app.py\<close>\<close>

text \<open>
  The script builds a table of daily sales, filters it by a date range and a list of
  regions, and derives three metrics and two grouped tables from the filtered table.
  The pandas and numpy operations it calls are written out below with the behaviour the
  script relies on. Where that behaviour differs between versions of the two libraries
  (the exception for a negative number of periods, the resolution of a timestamp), it is
  a field of the record \<open>library\<close>, and the properties hold for every value of it.

  \<^item> A \<open>Date\<close> is a midnight timestamp; it is kept as the number of days since
    1970-01-01, so that the next calendar day is \<open>+ 1\<close>.
  \<^item> \<open>Sales\<close> is an \<open>int64\<close> column. It is kept as an unbounded integer: a sum of values
    below 1000 stays below \<open>2^63\<close> for every table that fits in memory.
  \<^item> \<open>Region\<close> is a column of Python strings, compared by code point.
  \<^item> \<open>Series.mean\<close> returns a \<open>float64\<close>; the quotient is kept exact (a rational) and
    the value \<open>nan\<close> that pandas returns on an empty series is a constructor of its own.
\<close>

subsection \<open>Data\<close>

type_synonym date = int

record row =
  Date :: date
  Sales :: int
  Region :: string

type_synonym dataframe = "row list"

text \<open>The exceptions the library calls of the script can raise.\<close>

datatype error = ValueError | OutOfBoundsDatetime | OverflowError

text \<open>
  The installed libraries. \<open>ticks_per_day\<close> is the number of units of the timestamp
  resolution in one day: a timestamp is an \<open>int64\<close> count of these units since
  1970-01-01. \<open>negative_periods\<close> is the exception \<^verbatim>\<open>pd.date_range\<close> ends with on a
  negative number of periods: \<open>OutOfBoundsDatetime\<close> where the count wraps to an
  unsigned value too large for the range, \<open>OverflowError\<close> where numpy refuses to
  convert it.
\<close>

record library =
  negative_periods :: error
  ticks_per_day :: int

definition i8max :: int where
  "i8max = 2 ^ 63 - 1"

datatype float64 = NaN | Num rat

text \<open>
  numpy's global random state, as the stream of raw draws still to come. A drawing function
  consumes a prefix and returns the rest.
\<close>

type_synonym rng = "nat \<Rightarrow> nat"

definition advance :: "rng \<Rightarrow> nat \<Rightarrow> rng" where
  "advance raw n = (\<lambda>i. raw (i + n))"

subsection \<open>Library operations used by the script\<close>

text \<open>\<^verbatim>\<open>pd.date_range(start=..., periods=n, freq="D")\<close>: \<open>n\<close> consecutive days from \<open>start\<close>,
  none for \<open>n = 0\<close>. A negative number of periods ends with the exception of the installed
  libraries. A range whose last day does not fit the \<open>int64\<close> timestamp ends with
  \<open>OutOfBoundsDatetime\<close> (\<^verbatim>\<open>Cannot generate range with start=... and periods=...\<close>).\<close>

definition date_range :: "library \<Rightarrow> date \<Rightarrow> int \<Rightarrow> error + date list" where
  "date_range L start periods =
     (if periods < 0 then Inl (negative_periods L)
      else if 0 < periods \<and> i8max < (start + periods - 1) * ticks_per_day L
        then Inl OutOfBoundsDatetime
      else Inr (map (\<lambda>i. start + int i) [0..<nat periods]))"

text \<open>\<^verbatim>\<open>np.random.randint(low, high, size=n)\<close>: \<open>n\<close> draws from the half-open interval
  \<open>[low, high)\<close>; an empty interval or a negative size raises \<open>ValueError\<close>.\<close>

definition randint :: "rng \<Rightarrow> int \<Rightarrow> int \<Rightarrow> int \<Rightarrow> error + (int list \<times> rng)" where
  "randint raw low high n =
     (if high \<le> low \<or> n < 0 then Inl ValueError
      else Inr (map (\<lambda>i. low + int (raw i mod nat (high - low))) [0..<nat n],
                advance raw (nat n)))"

text \<open>\<^verbatim>\<open>np.random.choice(a, size=n)\<close>: \<open>n\<close> draws from the list \<open>a\<close>; a negative size, or
  an empty \<open>a\<close> with a non-zero size, raises \<open>ValueError\<close>.\<close>

definition choice :: "rng \<Rightarrow> 'a list \<Rightarrow> int \<Rightarrow> error + ('a list \<times> rng)" where
  "choice raw a n =
     (if n < 0 \<or> (a = [] \<and> n \<noteq> 0) then Inl ValueError
      else Inr (map (\<lambda>i. a ! (raw i mod length a)) [0..<nat n],
                advance raw (nat n)))"

text \<open>\<^verbatim>\<open>pd.DataFrame({'Date': ..., 'Sales': ..., 'Region': ...})\<close>: one row per position;
  columns of different lengths raise \<open>ValueError\<close>.\<close>

definition DataFrame :: "date list \<Rightarrow> int list \<Rightarrow> string list \<Rightarrow> error + dataframe" where
  "DataFrame dates sales regions =
     (if length sales \<noteq> length dates \<or> length regions \<noteq> length dates then Inl ValueError
      else Inr (map (\<lambda>(d, s, g). \<lparr>Date = d, Sales = s, Region = g\<rparr>)
                  (zip dates (zip sales regions))))"

text \<open>\<^verbatim>\<open>df[mask]\<close>: the rows at the positions where the boolean series is true, in the
  order of the table. The result is a new table.\<close>

definition getitem_mask :: "'a list \<Rightarrow> bool list \<Rightarrow> 'a list" where
  "getitem_mask t b = map fst (filter snd (zip t b))"

text \<open>The element-wise \<^verbatim>\<open>&\<close> of two boolean series.\<close>

definition series_and :: "bool list \<Rightarrow> bool list \<Rightarrow> bool list" where
  "series_and a b = map (\<lambda>(x, y). x \<and> y) (zip a b)"

text \<open>\<^verbatim>\<open>df.groupby(key)['Sales'].sum().reset_index()\<close>: pandas collects the distinct keys,
  sorts them (\<open>sort=True\<close> is the default) and sums the \<open>Sales\<close> of the rows of each key.\<close>

definition groupby_sum :: "(row \<Rightarrow> 'k::linorder) \<Rightarrow> dataframe \<Rightarrow> ('k \<times> int) list" where
  "groupby_sum key df =
     map (\<lambda>k. (k, sum_list (map Sales (filter (\<lambda>r. key r = k) df))))
       (sort (remdups (map key df)))"

text \<open>\<^verbatim>\<open>Series.mean()\<close>: \<open>nan\<close> on an empty series, no exception.\<close>

definition mean :: "int list \<Rightarrow> float64" where
  "mean xs = (if xs = [] then NaN else Num (of_int (sum_list xs) / of_nat (length xs)))"

subsection \<open>Data generation\<close>

text \<open>The start of the generated range, 2024-01-01, is day 19723.\<close>

definition epoch :: date where
  "epoch = 19723"

definition region_names :: "string list" where
  "region_names = [''North'', ''South'', ''East'', ''West'']"

text \<open>\<open>generate_sales_data\<close>, lines 15 to 33. The function has no check of its own on
  \<open>num_days\<close>; an exception of one of the library calls ends it, and the call of
  \<^verbatim>\<open>pd.date_range\<close> on line 25 comes first. The \<^verbatim>\<open>@st.cache_data\<close> decorator only stores
  the result and is left out.\<close>

definition generate_sales_data :: "library \<Rightarrow> rng \<Rightarrow> int \<Rightarrow> error + dataframe" where
  "generate_sales_data L raw num_days =
     (case date_range L epoch num_days of
        Inl e \<Rightarrow> Inl e
      | Inr dates \<Rightarrow>
          (case randint raw 100 1000 num_days of
             Inl e \<Rightarrow> Inl e
           | Inr (sales, raw') \<Rightarrow>
               (case choice raw' region_names num_days of
                  Inl e \<Rightarrow> Inl e
                | Inr (regions, raw'') \<Rightarrow> DataFrame dates sales regions)))"

subsection \<open>Filtering\<close>

text \<open>The values of the two sidebar widgets.\<close>

record sidebar =
  start_date :: date
  end_date :: date
  selected_regions :: "string list"

text \<open>\<open>filtered_df\<close>, lines 78 to 82: three boolean series, combined with \<^verbatim>\<open>&\<close>, select
  the rows.\<close>

definition filtered_df :: "dataframe \<Rightarrow> sidebar \<Rightarrow> dataframe" where
  "filtered_df df c =
     getitem_mask df
       (series_and
          (series_and (map (\<lambda>r. Date r \<ge> start_date c) df)
                      (map (\<lambda>r. Date r \<le> end_date c) df))
          (map (\<lambda>r. Region r \<in> set (selected_regions c)) df))"

text \<open>The variables of the script that the filter step reads and writes: the step assigns
  \<open>filtered_df\<close> and nothing else.\<close>

record script =
  df :: dataframe
  filters :: sidebar
  view :: dataframe

definition apply_filters :: "script \<Rightarrow> script" where
  "apply_filters s = s\<lparr>view := filtered_df (df s) (filters s)\<rparr>"

subsection \<open>Metrics and grouped tables\<close>

definition total_sales :: "dataframe \<Rightarrow> int" where
  "total_sales v = sum_list (map Sales v)"

definition daily_sales_trend :: "dataframe \<Rightarrow> (date \<times> int) list" where
  "daily_sales_trend v = groupby_sum Date v"

definition avg_daily_sales :: "dataframe \<Rightarrow> float64" where
  "avg_daily_sales v = mean (map snd (groupby_sum Date v))"

definition num_transactions :: "dataframe \<Rightarrow> nat" where
  "num_transactions v = length v"

definition sales_by_region :: "dataframe \<Rightarrow> (string \<times> int) list" where
  "sales_by_region v = groupby_sum Region v"

subsection \<open>Concrete inputs\<close>

definition raw0 :: rng where
  "raw0 i = 7 * i + 3"

text \<open>pandas 2 with nanosecond timestamps: a day is \<open>86400 * 10^9\<close> units, and the last
  day that fits is day 106751, 2262-04-11.\<close>

definition pandas_ns :: library where
  "pandas_ns = \<lparr>negative_periods = OutOfBoundsDatetime, ticks_per_day = 86400000000000\<rparr>"

definition five_days :: dataframe where
  "five_days =
     [\<lparr>Date = 19723, Sales = 100, Region = ''North''\<rparr>,
      \<lparr>Date = 19724, Sales = 200, Region = ''North''\<rparr>,
      \<lparr>Date = 19725, Sales = 300, Region = ''North''\<rparr>,
      \<lparr>Date = 19726, Sales = 400, Region = ''North''\<rparr>,
      \<lparr>Date = 19727, Sales = 500, Region = ''North''\<rparr>]"

text \<open>A table with two rows on one day and rows out of date order, as the filter and the
  grouping accept.\<close>

definition mixed :: dataframe where
  "mixed =
     [\<lparr>Date = 19724, Sales = 10, Region = ''West''\<rparr>,
      \<lparr>Date = 19723, Sales = 20, Region = ''East''\<rparr>,
      \<lparr>Date = 19724, Sales = 30, Region = ''North''\<rparr>]"

definition all_of :: "date \<Rightarrow> date \<Rightarrow> sidebar" where
  "all_of a b = \<lparr>start_date = a, end_date = b, selected_regions = region_names\<rparr>"

definition swapped :: dataframe where
  "swapped =
     [\<lparr>Date = 19724, Sales = 30, Region = ''North''\<rparr>,
      \<lparr>Date = 19724, Sales = 10, Region = ''West''\<rparr>,
      \<lparr>Date = 19723, Sales = 20, Region = ''East''\<rparr>]"

definition from_second_day :: sidebar where
  "from_second_day = \<lparr>start_date = 19724, end_date = 19800, selected_regions = region_names\<rparr>"

definition none_selected :: sidebar where
  "none_selected = \<lparr>start_date = 19723, end_date = 19727, selected_regions = []\<rparr>"

definition inverted :: sidebar where
  "inverted = \<lparr>start_date = 19727, end_date = 19723, selected_regions = region_names\<rparr>"

section \<open>Properties\<close>

subsection \<open>The filter\<close>

lemma getitem_mask_map: "getitem_mask xs (map P xs) = filter P xs"
  by (induction xs) (simp_all add: getitem_mask_def)

lemma series_and_map: "series_and (map P xs) (map Q xs) = map (\<lambda>x. P x \<and> Q x) xs"
  by (induction xs) (simp_all add: series_and_def)

lemma filtered_df_filter:
  "filtered_df d c =
     filter (\<lambda>r. start_date c \<le> Date r \<and> Date r \<le> end_date c
                 \<and> Region r \<in> set (selected_regions c)) d"
  by (simp add: filtered_df_def series_and_map getitem_mask_map conj_assoc)

subsection \<open>Grouping\<close>

lemma groupby_sum_keys: "map fst (groupby_sum key d) = sort (remdups (map key d))"
  by (simp add: groupby_sum_def comp_def)

lemma groupby_sum_sorted: "sorted (map fst (groupby_sum key d))"
  by (simp add: groupby_sum_keys)

lemma groupby_sum_distinct: "distinct (map fst (groupby_sum key d))"
  by (simp add: groupby_sum_keys)

lemma groupby_sum_set: "set (map fst (groupby_sum key d)) = key ` set d"
  by (simp add: groupby_sum_keys)

lemma groupby_sum_row:
  "(k, s) \<in> set (groupby_sum key d) \<longleftrightarrow>
     k \<in> key ` set d \<and> s = sum_list (map Sales (filter (\<lambda>r. key r = k) d))"
  by (auto simp: groupby_sum_def)

lemma sum_list_single_key:
  "distinct ks \<Longrightarrow> sum_list (map (\<lambda>k. if a = k then (c::int) else 0) ks) = (if a \<in> set ks then c else 0)"
  by (induction ks) auto

lemma sum_by_key:
  "distinct ks \<Longrightarrow> key ` set xs \<subseteq> set ks \<Longrightarrow>
     sum_list (map (\<lambda>k. sum_list (map f (filter (\<lambda>r. key r = k) xs))) ks) = (sum_list (map f xs) :: int)"
proof (induction xs)
  case Nil
  then show ?case by simp
next
  case (Cons x xs)
  have "sum_list (map (\<lambda>k. sum_list (map f (filter (\<lambda>r. key r = k) (x # xs)))) ks)
      = sum_list (map (\<lambda>k. (if key x = k then f x else 0) + sum_list (map f (filter (\<lambda>r. key r = k) xs))) ks)"
    by (rule arg_cong [where f = sum_list]) simp
  also have "\<dots> = sum_list (map (\<lambda>k. if key x = k then f x else 0) ks)
                 + sum_list (map (\<lambda>k. sum_list (map f (filter (\<lambda>r. key r = k) xs))) ks)"
    by (simp add: sum_list_addf)
  also have "\<dots> = f x + sum_list (map f xs)"
    using Cons by (simp add: sum_list_single_key)
  finally show ?case by simp
qed

lemma groupby_sum_total: "sum_list (map snd (groupby_sum key d)) = total_sales d"
proof -
  have "sum_list (map snd (groupby_sum key d))
      = sum_list (map (\<lambda>k. sum_list (map Sales (filter (\<lambda>r. key r = k) d))) (sort (remdups (map key d))))"
    by (simp add: groupby_sum_def comp_def)
  also have "\<dots> = sum_list (map Sales d)"
    by (rule sum_by_key) simp_all
  finally show ?thesis by (simp add: total_sales_def)
qed

lemma groupby_sum_length: "distinct (map key d) \<Longrightarrow> length (groupby_sum key d) = length d"
  by (simp add: groupby_sum_def distinct_remdups_id)

lemma groupby_sum_Nil: "groupby_sum key [] = []"
  by (simp add: groupby_sum_def)

text \<open>The grouped table depends on the rows of the table, not on their order.\<close>

lemma groupby_sum_mset:
  assumes "mset v' = mset v"
  shows "groupby_sum key v' = groupby_sum key v"
proof -
  have "set (map key v') = set (map key v)"
    using assms by (metis mset_eq_setD set_map)
  then have keys: "sort (remdups (map key v')) = sort (remdups (map key v))"
    by (metis sorted_list_of_set_sort_remdups)
  have "sum_list (map Sales (filter (\<lambda>r. key r = k) v'))
      = sum_list (map Sales (filter (\<lambda>r. key r = k) v))" for k
  proof -
    have "mset (map Sales (filter (\<lambda>r. key r = k) v'))
        = mset (map Sales (filter (\<lambda>r. key r = k) v))"
      using assms by simp
    then show ?thesis by (metis sum_mset_sum_list)
  qed
  then show ?thesis
    by (simp add: groupby_sum_def keys)
qed

subsection \<open>The generator\<close>

lemma generate_sales_data_rows:
  assumes "0 \<le> num_days"
    and "0 < num_days \<longrightarrow> (epoch + num_days - 1) * ticks_per_day L \<le> i8max"
  shows "generate_sales_data L raw num_days =
     Inr (map (\<lambda>i. \<lparr>Date = epoch + int i,
                      Sales = 100 + int (raw i mod 900),
                      Region = region_names ! (raw (i + nat num_days) mod 4)\<rparr>)
            [0..<nat num_days])"
proof -
  have len: "length region_names = 4" and ne: "region_names \<noteq> []"
    by (simp_all add: region_names_def)
  have z: "zip (map f xs) (zip (map g xs) (map h xs)) = map (\<lambda>x. (f x, g x, h x)) xs"
    for f :: "nat \<Rightarrow> int" and g :: "nat \<Rightarrow> int" and h :: "nat \<Rightarrow> string" and xs
    by (induction xs) simp_all
  have dates: "date_range L epoch num_days = Inr (map (\<lambda>i. epoch + int i) [0..<nat num_days])"
    using assms by (auto simp: date_range_def)
  show ?thesis
    using assms(1)
    by (simp add: generate_sales_data_def dates randint_def choice_def
        DataFrame_def advance_def len ne z comp_def)
qed

lemma generate_sales_data_negative:
  "num_days < 0 \<Longrightarrow> generate_sales_data L raw num_days = Inl (negative_periods L)"
  by (simp add: generate_sales_data_def date_range_def)

lemma generate_sales_data_out_of_bounds:
  "0 < num_days \<Longrightarrow> i8max < (epoch + num_days - 1) * ticks_per_day L \<Longrightarrow>
     generate_sales_data L raw num_days = Inl OutOfBoundsDatetime"
  by (simp add: generate_sales_data_def date_range_def)

lemma generate_sales_data_dates:
  assumes "generate_sales_data L raw num_days = Inr d"
  shows "map Date d = map (\<lambda>i. epoch + int i) [0..<nat num_days]"
proof -
  have n: "0 \<le> num_days"
    using assms generate_sales_data_negative [of num_days L raw] by (cases "num_days < 0") auto
  have b: "0 < num_days \<longrightarrow> (epoch + num_days - 1) * ticks_per_day L \<le> i8max"
    using assms generate_sales_data_out_of_bounds [of num_days L raw]
    by (cases "i8max < (epoch + num_days - 1) * ticks_per_day L") auto
  from generate_sales_data_rows [OF n b, of raw] assms show ?thesis
    by (auto simp: comp_def)
qed

lemma generate_sales_data_distinct:
  assumes "generate_sales_data L raw num_days = Inr d"
  shows "distinct (map Date d)"
  by (simp add: generate_sales_data_dates [OF assms] distinct_map inj_on_def)

lemma pandas_ns_fits: "num_days \<le> 87029 \<Longrightarrow> (epoch + num_days - 1) * ticks_per_day pandas_ns \<le> i8max"
  by (simp add: epoch_def pandas_ns_def i8max_def)

lemma generate_pandas_ns_rows:
  assumes "0 \<le> num_days" and "num_days \<le> 87029"
  shows "generate_sales_data pandas_ns raw num_days =
     Inr (map (\<lambda>i. \<lparr>Date = epoch + int i,
                      Sales = 100 + int (raw i mod 900),
                      Region = region_names ! (raw (i + nat num_days) mod 4)\<rparr>)
            [0..<nat num_days])"
  using assms(1) pandas_ns_fits [OF assms(2)] by (intro generate_sales_data_rows) simp_all

subsection \<open>A table of five days\<close>

text \<open>Five consecutive days in one region, the whole range and all regions selected.\<close>

lemma five_days_scenario:
  "filtered_df five_days (all_of 19723 19727) = five_days
   \<and> total_sales five_days = 1500
   \<and> avg_daily_sales five_days = Num 300
   \<and> num_transactions five_days = 5
   \<and> sales_by_region five_days = [(''North'', 1500)]"
  by (simp add: filtered_df_filter all_of_def region_names_def five_days_def total_sales_def
      avg_daily_sales_def num_transactions_def sales_by_region_def groupby_sum_def mean_def)

section \<open>The claims\<close>

text \<open>
  C1. When no region is selected, or when the start of the range lies after its end, the
  filter returns the empty table and raises nothing; on that table the total is 0, the
  average daily sales is the no-data value \<open>nan\<close> of \<open>Series.mean\<close> (no division by
  zero is attempted), the number of transactions is 0, and both grouped tables are empty.
\<close>

theorem empty_criteria_empty_results:
  assumes "selected_regions c = [] \<or> end_date c < start_date c"
  shows "filtered_df d c = [] \<and> total_sales (filtered_df d c) = 0
       \<and> avg_daily_sales (filtered_df d c) = NaN
       \<and> num_transactions (filtered_df d c) = 0
       \<and> daily_sales_trend (filtered_df d c) = []
       \<and> sales_by_region (filtered_df d c) = []"
proof -
  have "filtered_df d c = []"
    using assms by (auto simp: filtered_df_filter filter_empty_conv)
  then show ?thesis
    by (simp add: total_sales_def avg_daily_sales_def num_transactions_def
        daily_sales_trend_def sales_by_region_def groupby_sum_Nil mean_def)
qed

theorem empty_criteria_empty_results_witness:
  "(selected_regions none_selected = [] \<or> end_date none_selected < start_date none_selected)
   \<and> filtered_df five_days none_selected = []
   \<and> avg_daily_sales (filtered_df five_days none_selected) = NaN
   \<and> (selected_regions inverted = [] \<or> end_date inverted < start_date inverted)
   \<and> filtered_df five_days inverted = []
   \<and> total_sales (filtered_df five_days inverted) = 0"
proof -
  have a: "selected_regions none_selected = [] \<or> end_date none_selected < start_date none_selected"
    by (simp add: none_selected_def)
  have b: "selected_regions inverted = [] \<or> end_date inverted < start_date inverted"
    by (simp add: inverted_def)
  show ?thesis
    using a b empty_criteria_empty_results [OF a, of five_days]
      empty_criteria_empty_results [OF b, of five_days]
    by blast
qed




text \<open>
  C3. The filtered table is exactly the rows of the table that lie in the closed date range
  and whose region is selected, in the order of the table (a subsequence of it); the
  filter step assigns the filtered table and leaves the table itself as it was.
\<close>

theorem filtered_df_subsequence:
  "filtered_df d c =
     filter (\<lambda>r. start_date c \<le> Date r \<and> Date r \<le> end_date c
                 \<and> Region r \<in> set (selected_regions c)) d
   \<and> subseq (filtered_df d c) d
   \<and> df (apply_filters s) = df s
   \<and> view (apply_filters s) = filtered_df (df s) (filters s)"
  by (simp add: filtered_df_filter apply_filters_def)

text \<open>
  C4, as the code has it. For a positive \<open>num_days\<close> whose last day fits the \<open>int64\<close>
  timestamp of the library, \<open>generate_sales_data\<close> returns a table of exactly \<open>num_days\<close>
  rows; the date of row \<open>i\<close> is day \<open>i\<close> after 2024-01-01, so the dates are consecutive and
  ascending from that day; every \<open>Sales\<close> value is an integer with \<open>100 \<le> Sales < 1000\<close> and
  every \<open>Region\<close> is one of North, South, East and West.
\<close>

theorem generate_shape:
  assumes "0 < num_days" and "(epoch + num_days - 1) * ticks_per_day L \<le> i8max"
  shows "\<exists>d. generate_sales_data L raw num_days = Inr d \<and> length d = nat num_days \<and>
     (\<forall>i < nat num_days. Date (d ! i) = epoch + int i \<and> 100 \<le> Sales (d ! i) \<and> Sales (d ! i) < 1000
        \<and> Region (d ! i) \<in> {''North'', ''South'', ''East'', ''West''})"
proof -
  have "0 \<le> num_days" using assms by simp
  note rows = generate_sales_data_rows [OF this, of L raw] assms(2)
  have reg: "region_names ! (k mod 4) \<in> {''North'', ''South'', ''East'', ''West''}" for k
  proof -
    have "k mod 4 < 4" by simp
    then consider "k mod 4 = 0" | "k mod 4 = 1" | "k mod 4 = 2" | "k mod 4 = 3" by linarith
    then show ?thesis by cases (simp_all add: region_names_def)
  qed
  show ?thesis
    using rows reg by auto
qed

theorem generate_shape_witness:
  "(0::int) < 3 \<and> (epoch + 3 - 1) * ticks_per_day pandas_ns \<le> i8max \<and>
   (\<exists>d. generate_sales_data pandas_ns raw0 3 = Inr d \<and> length d = 3 \<and>
        Date (d ! 0) = 19723 \<and> Date (d ! 1) = 19724 \<and> Date (d ! 2) = 19725 \<and>
        100 \<le> Sales (d ! 2) \<and> Sales (d ! 2) < 1000 \<and>
        Region (d ! 2) \<in> {''North'', ''South'', ''East'', ''West''})"
proof -
  have h: "(0::int) < 3" by simp
  have f: "(epoch + 3 - 1) * ticks_per_day pandas_ns \<le> i8max"
    by (simp add: epoch_def pandas_ns_def i8max_def)
  from generate_shape [OF h f, of raw0] obtain d where
    d: "generate_sales_data pandas_ns raw0 3 = Inr d" "length d = nat 3"
    and all: "\<forall>i < nat 3. Date (d ! i) = epoch + int i \<and> 100 \<le> Sales (d ! i) \<and> Sales (d ! i) < 1000
        \<and> Region (d ! i) \<in> {''North'', ''South'', ''East'', ''West''}"
    by blast
  have "(0::nat) < nat 3" "(1::nat) < nat 3" "(2::nat) < nat 3" by simp_all
  with all have "Date (d ! 0) = epoch + int 0" "Date (d ! 1) = epoch + int 1"
    "Date (d ! 2) = epoch + int 2" "100 \<le> Sales (d ! 2)" "Sales (d ! 2) < 1000"
    "Region (d ! 2) \<in> {''North'', ''South'', ''East'', ''West''}"
    by blast+
  with d h f show ?thesis by (simp add: epoch_def)
qed

text \<open>With nanosecond timestamps day 106752, the last of 87030 days, does not fit, and the
  function fails on this positive \<open>num_days\<close>.\<close>

theorem generate_out_of_bounds_counterexample:
  "(0::int) < 87030 \<and> i8max < (epoch + 87030 - 1) * ticks_per_day pandas_ns
   \<and> generate_sales_data pandas_ns raw0 87030 = Inl OutOfBoundsDatetime"
  by (simp add: generate_sales_data_out_of_bounds epoch_def pandas_ns_def i8max_def)

text \<open>
  C5. The sales of the rows of the per-date table add up to the total sales of the view.
\<close>

theorem daily_sum_law:
  "sum_list (map snd (daily_sales_trend v)) = total_sales v"
  by (simp add: daily_sales_trend_def groupby_sum_total)

text \<open>
  C6. On a view with at least one date, the average daily sales is the mean, over the
  distinct dates of the view, of the sum of the sales of the rows of each date: the sum
  of the per-date sums divided by the number of distinct dates, not by the number of rows.
\<close>

theorem avg_daily_sales_mean_over_dates:
  assumes "Date ` set v \<noteq> {}"
  shows "avg_daily_sales v =
     Num (of_int (\<Sum>d \<in> Date ` set v. sum_list (map Sales (filter (\<lambda>r. Date r = d) v)))
          / of_nat (card (Date ` set v)))"
proof -
  let ?ks = "sort (remdups (map Date v))"
  let ?g = "\<lambda>d. sum_list (map Sales (filter (\<lambda>r. Date r = d) v))"
  have vals: "map snd (groupby_sum Date v) = map ?g ?ks"
    by (simp add: groupby_sum_def comp_def)
  have dist: "distinct ?ks" and set: "set ?ks = Date ` set v"
    by simp_all
  have "set ?ks \<noteq> {}"
    using assms by simp
  then have ne: "?ks \<noteq> []"
    by (metis set_empty)
  have sum: "sum_list (map ?g ?ks) = sum ?g (Date ` set v)"
    using sum_list_distinct_conv_sum_set [OF dist, of ?g] set by simp
  have len: "length ?ks = card (Date ` set v)"
    using distinct_card [OF dist] set by simp
  show ?thesis
    unfolding avg_daily_sales_def vals mean_def using ne sum len by simp
qed

text \<open>On \<open>mixed\<close>, three rows on two days with total 60, the average is 30.\<close>

theorem avg_daily_sales_mean_over_dates_witness:
  "Date ` set mixed \<noteq> {} \<and> card (Date ` set mixed) = 2 \<and> length mixed = 3
   \<and> total_sales mixed = 60 \<and> avg_daily_sales mixed = Num 30"
proof -
  have ne: "Date ` set mixed \<noteq> {}" by (simp add: mixed_def)
  have s: "Date ` set mixed = {19723, 19724}" by (auto simp: mixed_def)
  show ?thesis
    using ne avg_daily_sales_mean_over_dates [OF ne]
    unfolding s by (simp add: mixed_def total_sales_def)
qed

text \<open>
  C7. The per-date table has one row for each date that occurs in the view and no other
  row (a date without rows in the view is absent), its dates are in ascending order, and
  the row of a date carries the sum of the sales of the rows of that date.
\<close>

theorem daily_sales_trend_rows:
  "distinct (map fst (daily_sales_trend v))
   \<and> set (map fst (daily_sales_trend v)) = Date ` set v
   \<and> sorted (map fst (daily_sales_trend v))
   \<and> (\<forall>(d, s) \<in> set (daily_sales_trend v).
         s = sum_list (map Sales (filter (\<lambda>r. Date r = d) v)))"
  unfolding daily_sales_trend_def
  using groupby_sum_distinct [of Date v] groupby_sum_set [of Date v]
    groupby_sum_sorted [of Date v] groupby_sum_row [of _ _ Date v]
  by blast

theorem daily_sales_trend_rows_witness:
  "daily_sales_trend mixed = [(19723, 20), (19724, 40)]
   \<and> (19724, 40) \<in> set (daily_sales_trend mixed)
   \<and> 40 = sum_list (map Sales (filter (\<lambda>r. Date r = 19724) mixed))
   \<and> Date ` set mixed = {19723, 19724}"
proof -
  have e: "daily_sales_trend mixed = [(19723, 20), (19724, 40)]"
    by (simp add: daily_sales_trend_def groupby_sum_def mixed_def)
  then have m: "(19724, 40) \<in> set (daily_sales_trend mixed)" by simp
  from daily_sales_trend_rows [of mixed] m
  have "40 = sum_list (map Sales (filter (\<lambda>r. Date r = 19724) mixed))" by blast
  moreover from daily_sales_trend_rows [of mixed] e
  have "Date ` set mixed = {19723, 19724}" by auto
  ultimately show ?thesis using e m by simp
qed

text \<open>
  C8. The per-region table is a function of the view alone: its rows come in strictly
  ascending order of the region name, one for each region of the view, so a second call
  on the same view, and a call on the same rows in any other order, returns the same
  sequence.
\<close>

theorem sales_by_region_stable:
  "sorted_wrt (<) (map fst (sales_by_region v))
   \<and> set (map fst (sales_by_region v)) = Region ` set v
   \<and> (mset v' = mset v \<longrightarrow> sales_by_region v' = sales_by_region v)"
  unfolding sales_by_region_def
  using groupby_sum_distinct [of Region v] groupby_sum_set [of Region v]
    groupby_sum_sorted [of Region v] groupby_sum_mset [of v' v Region]
  by (simp add: strict_sorted_iff)

theorem sales_by_region_stable_witness:
  "mset swapped = mset mixed
   \<and> sales_by_region swapped = sales_by_region mixed
   \<and> sales_by_region mixed = [(''East'', 20), (''North'', 30), (''West'', 10)]"
proof -
  have p: "mset swapped = mset mixed"
    by (simp add: swapped_def mixed_def)
  have e: "sales_by_region mixed = [(''East'', 20), (''North'', 30), (''West'', 10)]"
    by (simp add: sales_by_region_def groupby_sum_def mixed_def)
  from sales_by_region_stable [of mixed swapped] p e show ?thesis by blast
qed

text \<open>
  C9. The sales of the rows of the per-region table add up to the total sales of the view.
\<close>

theorem region_sum_law:
  "sum_list (map snd (sales_by_region v)) = total_sales v"
  by (simp add: sales_by_region_def groupby_sum_total)

text \<open>
  C10. In every filtered view of a generated table the dates are pairwise distinct; the
  per-date table then has as many rows as the view, and on a view that is not empty the
  average daily sales is the total sales divided by the number of transactions.
\<close>

theorem generated_view_one_row_per_day:
  assumes "generate_sales_data L raw num_days = Inr d"
  shows "distinct (map Date (filtered_df d c))
   \<and> length (daily_sales_trend (filtered_df d c)) = num_transactions (filtered_df d c)
   \<and> (filtered_df d c \<noteq> [] \<longrightarrow>
        avg_daily_sales (filtered_df d c) =
          Num (of_int (total_sales (filtered_df d c))
               / of_nat (num_transactions (filtered_df d c))))"
proof -
  let ?v = "filtered_df d c"
  have dist: "distinct (map Date ?v)"
    using generate_sales_data_distinct [OF assms]
    by (simp add: filtered_df_filter distinct_map_filter)
  have len: "length (groupby_sum Date ?v) = length ?v"
    by (rule groupby_sum_length [OF dist])
  have avg: "avg_daily_sales ?v = Num (of_int (total_sales ?v) / of_nat (length ?v))"
    if "?v \<noteq> []"
  proof -
    have "map snd (groupby_sum Date ?v) \<noteq> []"
      using that len by auto
    then show ?thesis
      by (simp add: avg_daily_sales_def mean_def groupby_sum_total len)
  qed
  show ?thesis
    using dist len avg by (simp add: daily_sales_trend_def num_transactions_def)
qed

theorem generated_view_one_row_per_day_witness:
  "generate_sales_data pandas_ns raw0 3 =
     Inr [\<lparr>Date = 19723, Sales = 103, Region = ''North''\<rparr>,
          \<lparr>Date = 19724, Sales = 110, Region = ''West''\<rparr>,
          \<lparr>Date = 19725, Sales = 117, Region = ''East''\<rparr>]
   \<and> filtered_df [\<lparr>Date = 19723, Sales = 103, Region = ''North''\<rparr>,
          \<lparr>Date = 19724, Sales = 110, Region = ''West''\<rparr>,
          \<lparr>Date = 19725, Sales = 117, Region = ''East''\<rparr>] from_second_day
       = [\<lparr>Date = 19724, Sales = 110, Region = ''West''\<rparr>,
          \<lparr>Date = 19725, Sales = 117, Region = ''East''\<rparr>]
   \<and> avg_daily_sales [\<lparr>Date = 19724, Sales = 110, Region = ''West''\<rparr>,
          \<lparr>Date = 19725, Sales = 117, Region = ''East''\<rparr>] = Num (227 / 2)"
proof -
  let ?d = "[\<lparr>Date = 19723, Sales = 103, Region = ''North''\<rparr>,
          \<lparr>Date = 19724, Sales = 110, Region = ''West''\<rparr>,
          \<lparr>Date = 19725, Sales = 117, Region = ''East''\<rparr>]"
  have g: "generate_sales_data pandas_ns raw0 3 = Inr ?d"
    by (simp add: generate_pandas_ns_rows raw0_def epoch_def region_names_def upt_rec)
  have f: "filtered_df ?d from_second_day =
       [\<lparr>Date = 19724, Sales = 110, Region = ''West''\<rparr>,
        \<lparr>Date = 19725, Sales = 117, Region = ''East''\<rparr>]"
    by (simp add: filtered_df_filter from_second_day_def region_names_def)
  from generated_view_one_row_per_day [OF g, of from_second_day] g f
  show ?thesis by (simp add: total_sales_def num_transactions_def)
qed

end
